theory Spec2Isabelle
  imports Main "HOL-Library.AList"
begin

section \<open>The EventHub test script \<^verbatim>\<open>test-eventhub.py\<close>\<close>

text \<open>
  The script builds one order record as a dictionary literal, serialises it with
  \<^verbatim>\<open>json.dumps\<close>, hands the text to the EventHub producer client inside an
  \<^verbatim>\<open>async with\<close> block and prints two lines. The development has three layers:
  \<^item> the Python values the record is made of, with \<^verbatim>\<open>float\<close> as the binary64
    number it is, and \<^verbatim>\<open>json.dumps\<close> / \<^verbatim>\<open>json.loads\<close> over them;
  \<^item> the producer client, whose code is not part of the repository: every call of it
    may return or raise, as a parameter \<open>sdk\<close> decides;
  \<^item> the procedure \<open>send_test_message\<close> and the script body \<open>main\<close>, as state
    passing over a \<open>world\<close> that holds the console, the hub and a log of the steps.
\<close>

subsection \<open>Exceptions\<close>

text \<open>
  The exceptions that can reach the script: the built-in ones raised by the \<^verbatim>\<open>json\<close>
  module, by argument checks and by \<^verbatim>\<open>print\<close>, and those of
  \<^verbatim>\<open>azure.eventhub.exceptions\<close>.
  \<open>Unrepresentable\<close> is not a Python exception: \<open>loads\<close> answers it for a
  \<^verbatim>\<open>\uXXXX\<close> escape above code point 255, which a HOL \<^typ>\<open>char\<close> cannot hold.
\<close>

datatype exn =
    TypeError
  | ValueError
  | JSONDecodeError
  | AuthenticationError
  | ConnectError
  | ConnectionLostError
  | EventDataSendError
  | OperationTimeoutError
  | EventHubError
  | UnicodeEncodeError
  | OSError
  | Unrepresentable

subsection \<open>Python floats\<close>

text \<open>
  A Python \<^verbatim>\<open>float\<close> is an IEEE 754 binary64 number. \<open>Finite neg m e\<close> is
  \<open>(-1)\<^bsup>neg\<^esup> * m * 2\<^bsup>e\<^esup>\<close>; a normal number has \<open>2\<^bsup>52\<^esup> \<le> m < 2\<^bsup>53\<^esup>\<close> and
  \<open>-1074 \<le> e \<le> 971\<close>, a subnormal one has \<open>m < 2\<^bsup>52\<^esup>\<close> and \<open>e = -1074\<close>, and
  zero is \<open>Finite neg 0 0\<close>.
\<close>

datatype double = Finite bool int int | Infinity bool | NaN

text \<open>\<open>ilog b n\<close> is the integer part of the logarithm of \<open>n \<ge> 1\<close> to the base \<open>b\<close>.\<close>

function ilog :: "int \<Rightarrow> int \<Rightarrow> int" where
  "ilog b n = (if b < 2 \<or> n < b then 0 else 1 + ilog b (n div b))"
  by pat_completeness auto
termination
proof (relation "measure (\<lambda>(b, n). nat n)")
  show "wf (measure (\<lambda>(b, n). nat n))" by simp
next
  fix b n :: int
  assume a: "\<not> (b < 2 \<or> n < b)"
  then have "n div b < n" by (simp add: int_div_less_self)
  with a show "((b, n div b), (b, n)) \<in> measure (\<lambda>(b, n). nat n)" by simp
qed

text \<open>
  Positive rationals are pairs of numerator and denominator. \<open>scale b s q\<close> is
  \<open>q * b\<^bsup>s\<^esup>\<close>, \<open>floor_log b q\<close> the integer part of the logarithm of \<open>q\<close>, and
  \<open>round_half_even q\<close> the integer nearest to \<open>q\<close>, a tie going to the even one.
\<close>

definition scale :: "int \<Rightarrow> int \<Rightarrow> int \<times> int \<Rightarrow> int \<times> int" where
  "scale b s q =
     (if 0 \<le> s then (fst q * b ^ nat s, snd q) else (fst q, snd q * b ^ nat (- s)))"

definition round_half_even :: "int \<times> int \<Rightarrow> int" where
  "round_half_even q =
     (let t = fst q div snd q; r = fst q mod snd q
      in if 2 * r < snd q then t
         else if snd q < 2 * r then t + 1
         else if even t then t else t + 1)"

definition floor_log :: "int \<Rightarrow> int \<times> int \<Rightarrow> int" where
  "floor_log b q =
     (let e = ilog b (fst q) - ilog b (snd q); q' = scale b (- e) q
      in if snd q' \<le> fst q' then e else e - 1)"

text \<open>
  \<open>float_of_decimal neg c k\<close> is the float that Python reads from the decimal numeral
  \<open>c * 10\<^bsup>k\<^esup>\<close> (in a source literal, in \<^verbatim>\<open>float(s)\<close> and in \<^verbatim>\<open>json.loads\<close>):
  the binary64 number nearest to it, ties to even, infinity on overflow.
\<close>

definition float_of_decimal :: "bool \<Rightarrow> int \<Rightarrow> int \<Rightarrow> double" where
  "float_of_decimal neg c k =
     (if c \<le> 0 then Finite neg 0 0
      else
        let q = scale 10 k (c, 1);
            ex = max (floor_log 2 q - 52) (- 1074);
            m = round_half_even (scale 2 (- ex) q);
            m' = (if m = 2 ^ 53 then 2 ^ 52 else m);
            ex' = (if m = 2 ^ 53 then ex + 1 else ex)
        in if 971 < ex' then Infinity neg
           else if m' = 0 then Finite neg 0 0
           else Finite neg m' ex')"

text \<open>
  \<^verbatim>\<open>float.__repr__\<close> prints the shortest decimal numeral that reads back as the same
  float and, among those of that length, the one nearest to it. \<open>repr_candidate m e n\<close>
  is that numeral with \<open>n\<close> significant digits for the float \<open>m * 2\<^bsup>e\<^esup>\<close>, when there is
  one: only the two \<open>n\<close>-digit numerals around the float can read back as it.
\<close>

definition repr_candidate :: "int \<Rightarrow> int \<Rightarrow> int \<Rightarrow> (int \<times> int) option" where
  "repr_candidate m e n =
     (let q = scale 2 e (m, 1);
          k = floor_log 10 q - n + 1;
          q' = scale 10 (- k) q;
          lo = fst q' div snd q';
          r = fst q' mod snd q';
          ok_lo = (float_of_decimal False lo k = Finite False m e);
          ok_hi = (float_of_decimal False (lo + 1) k = Finite False m e);
          lo_nearer = (2 * r < snd q' \<or> (2 * r = snd q' \<and> even lo))
      in if ok_lo \<and> lo_nearer then Some (lo, k)
         else if ok_hi then Some (lo + 1, k)
         else if ok_lo then Some (lo, k)
         else None)"

fun shortest_digits :: "int \<Rightarrow> int \<Rightarrow> int list \<Rightarrow> (int \<times> int) option" where
  "shortest_digits m e [] = None"
| "shortest_digits m e (n # ns) =
     (case repr_candidate m e n of
        Some d \<Rightarrow> Some d
      | None \<Rightarrow> shortest_digits m e ns)"

text \<open>Decimal digits of a non-negative integer, as \<^verbatim>\<open>int.__repr__\<close> prints them.\<close>

definition digit_char :: "int \<Rightarrow> char" where
  "digit_char d = ''0123456789'' ! nat d"

function nat_repr :: "int \<Rightarrow> string" where
  "nat_repr n = (if n < 10 then [digit_char n] else nat_repr (n div 10) @ [digit_char (n mod 10)])"
  by pat_completeness auto
termination
proof (relation "measure nat")
  show "wf (measure nat)" by simp
next
  fix n :: int
  assume a: "\<not> n < 10"
  then have "n div 10 < n" by (simp add: int_div_less_self)
  with a show "(n div 10, n) \<in> measure nat" by simp
qed

definition int_repr :: "int \<Rightarrow> string" where
  "int_repr i = (if i < 0 then CHR ''-'' # nat_repr (- i) else nat_repr i)"

text \<open>
  The digits \<open>c\<close> and the exponent \<open>k\<close> are laid out as \<^verbatim>\<open>repr\<close> does: with
  \<open>decpt\<close> the position of the decimal point after the first digit group, the
  exponent form is used when \<open>decpt \<le> -4\<close> or \<open>16 < decpt\<close>, the exponent has a sign and
  at least two digits, and a numeral without a fraction gets \<^verbatim>\<open>.0\<close>.
\<close>

function strip_zeros :: "int \<times> int \<Rightarrow> int \<times> int" where
  "strip_zeros d =
     (if 0 < fst d \<and> fst d mod 10 = 0 then strip_zeros (fst d div 10, snd d + 1) else d)"
  by pat_completeness auto
termination
proof (relation "measure (\<lambda>d. nat (fst d))")
  show "wf (measure (\<lambda>d. nat (fst d)))" by simp
next
  fix d :: "int \<times> int"
  assume a: "0 < fst d \<and> fst d mod 10 = 0"
  then have "fst d div 10 < fst d" by (simp add: int_div_less_self)
  with a show "((fst d div 10, snd d + 1), d) \<in> measure (\<lambda>d. nat (fst d))" by simp
qed

definition layout_digits :: "int \<times> int \<Rightarrow> string" where
  "layout_digits d =
     (let ds = nat_repr (fst d);
          n = int (length ds);
          decpt = n + snd d
      in if decpt \<le> - 4 \<or> 16 < decpt then
           (let x = decpt - 1;
                xs = nat_repr (abs x)
            in take 1 ds @ (if 1 < n then CHR ''.'' # drop 1 ds else [])
               @ ''e'' @ (if x < 0 then ''-'' else ''+'')
               @ (if length xs < 2 then CHR ''0'' # xs else xs))
         else if decpt \<le> 0 then ''0.'' @ replicate (nat (- decpt)) CHR ''0'' @ ds
         else if decpt < n then take (nat decpt) ds @ CHR ''.'' # drop (nat decpt) ds
         else ds @ replicate (nat (decpt - n)) CHR ''0'' @ ''.0'')"

definition nearest_digits :: "int \<Rightarrow> int \<Rightarrow> int \<Rightarrow> int \<times> int" where
  "nearest_digits m e n =
     (let q = scale 2 e (m, 1);
          k = floor_log 10 q - n + 1
      in (round_half_even (scale 10 (- k) q), k))"

text \<open>Seventeen significant digits always read back as the same binary64 number.\<close>

definition float_repr :: "double \<Rightarrow> string" where
  "float_repr x =
     (case x of
        NaN \<Rightarrow> ''nan''
      | Infinity neg \<Rightarrow> (if neg then ''-inf'' else ''inf'')
      | Finite neg m e \<Rightarrow>
          (if neg then ''-'' else [])
          @ (if m \<le> 0 then ''0.0''
             else case shortest_digits m e [1, 2, 3, 4, 5, 6, 7, 8, 9, 10, 11, 12, 13, 14, 15, 16] of
                    Some d \<Rightarrow> layout_digits (strip_zeros d)
                  | None \<Rightarrow> layout_digits (strip_zeros (nearest_digits m e 17))))"

subsection \<open>Python values and \<^verbatim>\<open>json.dumps\<close>\<close>

text \<open>
  The values \<^verbatim>\<open>json\<close> deals with. A \<^verbatim>\<open>dict\<close> keeps its keys in insertion order, so
  it is an association list; its keys are strings, as in the script. A string is a list
  of code points below 256. \<open>PyBytes\<close> stands for the objects that \<^verbatim>\<open>json.dumps\<close>
  refuses with a \<^verbatim>\<open>TypeError\<close>.
\<close>

datatype pyval =
    PyNone
  | PyBool bool
  | PyInt int
  | PyFloat double
  | PyStr string
  | PyList "pyval list"
  | PyDict "(string \<times> pyval) list"
  | PyBytes string

text \<open>
  \<^verbatim>\<open>py_encode_basestring_ascii\<close>: the quote, the backslash and the five short control
  escapes, every other character outside \<^verbatim>\<open>' '..'~'\<close> as \<^verbatim>\<open>\u00xx\<close>.
\<close>

definition hex_char :: "nat \<Rightarrow> char" where
  "hex_char d = ''0123456789abcdef'' ! d"

definition escape_char :: "char \<Rightarrow> string" where
  "escape_char c =
     (if c = CHR 0x22 then [CHR 0x5C, CHR 0x22]
      else if c = CHR 0x5C then [CHR 0x5C, CHR 0x5C]
      else if c = CHR 0x0A then [CHR 0x5C, CHR ''n'']
      else if c = CHR 0x0D then [CHR 0x5C, CHR ''r'']
      else if c = CHR 0x09 then [CHR 0x5C, CHR ''t'']
      else if c = CHR 0x08 then [CHR 0x5C, CHR ''b'']
      else if c = CHR 0x0C then [CHR 0x5C, CHR ''f'']
      else if (0x20 :: nat) \<le> of_char c \<and> of_char c \<le> (0x7E :: nat) then [c]
      else [CHR 0x5C, CHR ''u'', CHR ''0'', CHR ''0'',
            hex_char (of_char c div 16), hex_char (of_char c mod 16)])"

definition encode_basestring_ascii :: "string \<Rightarrow> string" where
  "encode_basestring_ascii s = CHR 0x22 # concat (map escape_char s) @ [CHR 0x22]"

text \<open>The encoder's \<^verbatim>\<open>floatstr\<close>: \<^verbatim>\<open>float.__repr__\<close>, and the three names (\<^verbatim>\<open>allow_nan\<close> is on).\<close>

definition floatstr :: "double \<Rightarrow> string" where
  "floatstr x =
     (case x of
        NaN \<Rightarrow> ''NaN''
      | Infinity neg \<Rightarrow> (if neg then ''-Infinity'' else ''Infinity'')
      | Finite neg m e \<Rightarrow> float_repr x)"

fun join :: "string \<Rightarrow> string list \<Rightarrow> string" where
  "join sep [] = []"
| "join sep [s] = s"
| "join sep (s # t # ss) = s @ sep @ join sep (t # ss)"

text \<open>
  The encoder, with \<^verbatim>\<open>indent\<close> as \<open>None\<close> or \<open>Some n\<close> and the nesting level. Without
  an indent the separators are \<^verbatim>\<open>', '\<close> and \<^verbatim>\<open>': '\<close>; with one, the item separator is
  \<^verbatim>\<open>','\<close> followed by a new line and \<open>n\<close> spaces per level. An empty list or dict is
  printed closed at once.
\<close>

definition newline_indent :: "nat option \<Rightarrow> nat \<Rightarrow> string" where
  "newline_indent ind lvl =
     (case ind of None \<Rightarrow> [] | Some n \<Rightarrow> CHR 0x0A # replicate (n * lvl) CHR '' '')"

definition item_separator :: "nat option \<Rightarrow> nat \<Rightarrow> string" where
  "item_separator ind lvl =
     (case ind of None \<Rightarrow> '', '' | Some n \<Rightarrow> '','' @ newline_indent ind lvl)"

fun encode :: "nat option \<Rightarrow> nat \<Rightarrow> pyval \<Rightarrow> exn + string"
  and encode_list :: "nat option \<Rightarrow> nat \<Rightarrow> pyval list \<Rightarrow> exn + string list"
  and encode_dict :: "nat option \<Rightarrow> nat \<Rightarrow> (string \<times> pyval) list \<Rightarrow> exn + string list"
where
  "encode ind lvl PyNone = Inr ''null''"
| "encode ind lvl (PyBool b) = Inr (if b then ''true'' else ''false'')"
| "encode ind lvl (PyInt i) = Inr (int_repr i)"
| "encode ind lvl (PyFloat x) = Inr (floatstr x)"
| "encode ind lvl (PyStr s) = Inr (encode_basestring_ascii s)"
| "encode ind lvl (PyBytes b) = Inl TypeError"
| "encode ind lvl (PyList xs) =
     (if xs = [] then Inr ''[]''
      else case encode_list ind (Suc lvl) xs of
             Inl e \<Rightarrow> Inl e
           | Inr ss \<Rightarrow>
               Inr (''['' @ newline_indent ind (Suc lvl)
                    @ join (item_separator ind (Suc lvl)) ss
                    @ newline_indent ind lvl @ '']''))"
| "encode ind lvl (PyDict kvs) =
     (if kvs = [] then Inr ''{}''
      else case encode_dict ind (Suc lvl) kvs of
             Inl e \<Rightarrow> Inl e
           | Inr ss \<Rightarrow>
               Inr (''{'' @ newline_indent ind (Suc lvl)
                    @ join (item_separator ind (Suc lvl)) ss
                    @ newline_indent ind lvl @ ''}''))"
| "encode_list ind lvl [] = Inr []"
| "encode_list ind lvl (x # xs) =
     (case encode ind lvl x of
        Inl e \<Rightarrow> Inl e
      | Inr s \<Rightarrow> (case encode_list ind lvl xs of Inl e \<Rightarrow> Inl e | Inr ss \<Rightarrow> Inr (s # ss)))"
| "encode_dict ind lvl [] = Inr []"
| "encode_dict ind lvl (kv # kvs) =
     (case encode ind lvl (snd kv) of
        Inl e \<Rightarrow> Inl e
      | Inr s \<Rightarrow>
          (case encode_dict ind lvl kvs of
             Inl e \<Rightarrow> Inl e
           | Inr ss \<Rightarrow> Inr ((encode_basestring_ascii (fst kv) @ '': '' @ s) # ss)))"

definition dumps :: "pyval \<Rightarrow> exn + string" where
  "dumps obj = encode None 0 obj"

definition dumps_indent :: "nat \<Rightarrow> pyval \<Rightarrow> exn + string" where
  "dumps_indent n obj = encode (Some n) 0 obj"

subsection \<open>\<^verbatim>\<open>json.loads\<close>\<close>

text \<open>
  The decoder in two passes over the text: \<open>scan\<close> cuts it into tokens and \<open>parse\<close>
  builds the value with a stack of the arrays and objects that are still open. A run of
  letters, digits, signs and dots is one token, a number or a name; what may follow a
  value (white space, a comma, a closing bracket, the end) is none of these characters,
  so the text is accepted exactly when the number or name stands alone there.
\<close>

datatype token =
    TLBrace | TRBrace | TLBracket | TRBracket | TColon | TComma
  | TString string
  | TAtom string

datatype lexmode =
    Between
  | InString string
  | Escape string
  | Unicode string "nat list"
  | InAtom string

definition is_ws :: "char \<Rightarrow> bool" where
  "is_ws c = (c = CHR '' '' \<or> c = CHR 0x09 \<or> c = CHR 0x0A \<or> c = CHR 0x0D)"

definition is_digit :: "char \<Rightarrow> bool" where
  "is_digit c = ((0x30 :: nat) \<le> of_char c \<and> of_char c \<le> (0x39 :: nat))"

definition is_letter :: "char \<Rightarrow> bool" where
  "is_letter c =
     (((0x41 :: nat) \<le> of_char c \<and> of_char c \<le> (0x5A :: nat))
      \<or> ((0x61 :: nat) \<le> of_char c \<and> of_char c \<le> (0x7A :: nat)))"

definition is_atom_char :: "char \<Rightarrow> bool" where
  "is_atom_char c = (is_digit c \<or> is_letter c \<or> c = CHR ''-'' \<or> c = CHR ''+'' \<or> c = CHR ''.'')"

definition punctuation :: "char \<Rightarrow> token option" where
  "punctuation c =
     (if c = CHR ''{'' then Some TLBrace
      else if c = CHR ''}'' then Some TRBrace
      else if c = CHR ''['' then Some TLBracket
      else if c = CHR '']'' then Some TRBracket
      else if c = CHR '':'' then Some TColon
      else if c = CHR '','' then Some TComma
      else None)"

text \<open>The decoder's table \<^verbatim>\<open>BACKSLASH\<close> of one-letter escapes.\<close>

definition unescape :: "char \<Rightarrow> char option" where
  "unescape c =
     (if c = CHR 0x22 then Some (CHR 0x22)
      else if c = CHR 0x5C then Some (CHR 0x5C)
      else if c = CHR ''/'' then Some (CHR ''/'')
      else if c = CHR ''b'' then Some (CHR 0x08)
      else if c = CHR ''f'' then Some (CHR 0x0C)
      else if c = CHR ''n'' then Some (CHR 0x0A)
      else if c = CHR ''r'' then Some (CHR 0x0D)
      else if c = CHR ''t'' then Some (CHR 0x09)
      else None)"

definition hex_value :: "char \<Rightarrow> nat option" where
  "hex_value c =
     (if is_digit c then Some (of_char c - 0x30)
      else if (0x61 :: nat) \<le> of_char c \<and> of_char c \<le> (0x66 :: nat) then Some (of_char c - 0x57)
      else if (0x41 :: nat) \<le> of_char c \<and> of_char c \<le> (0x46 :: nat) then Some (of_char c - 0x37)
      else None)"

definition emit :: "token \<Rightarrow> exn + token list \<Rightarrow> exn + token list" where
  "emit t r = (case r of Inl e \<Rightarrow> Inl e | Inr ts \<Rightarrow> Inr (t # ts))"

text \<open>
  Inside a string a control character is refused (the decoder is strict), and a
  \<^verbatim>\<open>\uXXXX\<close> escape takes four hexadecimal digits.
\<close>

fun scan :: "lexmode \<Rightarrow> string \<Rightarrow> exn + token list" where
  "scan Between [] = Inr []"
| "scan Between (c # cs) =
     (if is_ws c then scan Between cs
      else if c = CHR 0x22 then scan (InString []) cs
      else if is_atom_char c then scan (InAtom [c]) cs
      else case punctuation c of
             Some t \<Rightarrow> emit t (scan Between cs)
           | None \<Rightarrow> Inl JSONDecodeError)"
| "scan (InString acc) [] = Inl JSONDecodeError"
| "scan (InString acc) (c # cs) =
     (if c = CHR 0x22 then emit (TString (rev acc)) (scan Between cs)
      else if c = CHR 0x5C then scan (Escape acc) cs
      else if of_char c < (0x20 :: nat) then Inl JSONDecodeError
      else scan (InString (c # acc)) cs)"
| "scan (Escape acc) [] = Inl JSONDecodeError"
| "scan (Escape acc) (c # cs) =
     (if c = CHR ''u'' then scan (Unicode acc []) cs
      else case unescape c of
             Some d \<Rightarrow> scan (InString (d # acc)) cs
           | None \<Rightarrow> Inl JSONDecodeError)"
| "scan (Unicode acc hs) [] = Inl JSONDecodeError"
| "scan (Unicode acc hs) (c # cs) =
     (case hex_value c of
        None \<Rightarrow> Inl JSONDecodeError
      | Some h \<Rightarrow>
          if length hs < 3 then scan (Unicode acc (hs @ [h])) cs
          else let cp = foldl (\<lambda>a d. 16 * a + d) 0 (hs @ [h])
               in if cp < 256 then scan (InString (char_of cp # acc)) cs
                  else Inl Unrepresentable)"
| "scan (InAtom acc) [] = Inr [TAtom (rev acc)]"
| "scan (InAtom acc) (c # cs) =
     (if is_atom_char c then scan (InAtom (c # acc)) cs
      else if is_ws c then emit (TAtom (rev acc)) (scan Between cs)
      else if c = CHR 0x22 then emit (TAtom (rev acc)) (scan (InString []) cs)
      else case punctuation c of
             Some t \<Rightarrow> emit (TAtom (rev acc)) (emit t (scan Between cs))
           | None \<Rightarrow> Inl JSONDecodeError)"

text \<open>
  A number is \<^verbatim>\<open>(-?(?:0|[1-9]\d*))(\.\d+)?([eE][-+]?\d+)?\<close>: an \<^verbatim>\<open>int\<close> when it has
  neither fraction nor exponent, a \<^verbatim>\<open>float\<close> otherwise.
\<close>

definition digits_value :: "string \<Rightarrow> int" where
  "digits_value ds = foldl (\<lambda>a c. 10 * a + (int (of_char c) - 0x30)) 0 ds"

definition number_value :: "string \<Rightarrow> exn + pyval" where
  "number_value a =
     (let neg = (take 1 a = ''-'');
          r0 = (if neg then drop 1 a else a);
          ip = takeWhile is_digit r0;
          r1 = dropWhile is_digit r0;
          has_frac = (take 1 r1 = ''.'');
          fp = (if has_frac then takeWhile is_digit (drop 1 r1) else []);
          r2 = (if has_frac then dropWhile is_digit (drop 1 r1) else r1);
          has_exp = (take 1 r2 = ''e'' \<or> take 1 r2 = ''E'');
          r3 = (if has_exp then drop 1 r2 else r2);
          eneg = (take 1 r3 = ''-'');
          r4 = (if has_exp \<and> (eneg \<or> take 1 r3 = ''+'') then drop 1 r3 else r3);
          ep = (if has_exp then takeWhile is_digit r4 else []);
          r5 = (if has_exp then dropWhile is_digit r4 else r4)
      in if ip = [] \<or> (1 < length ip \<and> take 1 ip = ''0'') \<or> (has_frac \<and> fp = [])
            \<or> (has_exp \<and> ep = []) \<or> 0 < length r5
         then Inl JSONDecodeError
         else if has_frac \<or> has_exp
         then Inr (PyFloat (float_of_decimal neg (digits_value (ip @ fp))
                      ((if eneg then - digits_value ep else digits_value ep) - int (length fp))))
         else Inr (PyInt (if neg then - digits_value ip else digits_value ip)))"

definition atom_value :: "string \<Rightarrow> exn + pyval" where
  "atom_value a =
     (if a = ''null'' then Inr PyNone
      else if a = ''true'' then Inr (PyBool True)
      else if a = ''false'' then Inr (PyBool False)
      else if a = ''NaN'' then Inr (PyFloat NaN)
      else if a = ''Infinity'' then Inr (PyFloat (Infinity False))
      else if a = ''-Infinity'' then Inr (PyFloat (Infinity True))
      else number_value a)"

text \<open>
  The open containers: an array with its elements so far (the last one first), an
  object with its members so far, and an object whose next key has been read. A key
  that comes again replaces the value and keeps its place, as \<^verbatim>\<open>dict(pairs)\<close> does.
\<close>

datatype frame =
    InArray "pyval list"
  | InObject "(string \<times> pyval) list"
  | HaveKey "(string \<times> pyval) list" string

datatype expect =
    Value | ValueOrClose | Key | KeyOrClose | Colon | CommaOrClose | End pyval

definition deliver :: "pyval \<Rightarrow> frame list \<Rightarrow> exn + (expect \<times> frame list)" where
  "deliver v st =
     (case st of
        [] \<Rightarrow> Inr (End v, [])
      | InArray xs # st' \<Rightarrow> Inr (CommaOrClose, InArray (v # xs) # st')
      | HaveKey ms k # st' \<Rightarrow> Inr (CommaOrClose, InObject (AList.update k v ms) # st')
      | InObject ms # st' \<Rightarrow> Inl JSONDecodeError)"

definition value_start :: "frame list \<Rightarrow> token \<Rightarrow> exn + (expect \<times> frame list)" where
  "value_start st t =
     (case t of
        TString s \<Rightarrow> deliver (PyStr s) st
      | TAtom a \<Rightarrow> (case atom_value a of Inl e \<Rightarrow> Inl e | Inr v \<Rightarrow> deliver v st)
      | TLBracket \<Rightarrow> Inr (ValueOrClose, InArray [] # st)
      | TLBrace \<Rightarrow> Inr (KeyOrClose, InObject [] # st)
      | _ \<Rightarrow> Inl JSONDecodeError)"

definition close_array :: "frame list \<Rightarrow> exn + (expect \<times> frame list)" where
  "close_array st =
     (case st of InArray xs # st' \<Rightarrow> deliver (PyList (rev xs)) st' | _ \<Rightarrow> Inl JSONDecodeError)"

definition close_object :: "frame list \<Rightarrow> exn + (expect \<times> frame list)" where
  "close_object st =
     (case st of InObject ms # st' \<Rightarrow> deliver (PyDict ms) st' | _ \<Rightarrow> Inl JSONDecodeError)"

definition read_key :: "frame list \<Rightarrow> string \<Rightarrow> exn + (expect \<times> frame list)" where
  "read_key st k =
     (case st of InObject ms # st' \<Rightarrow> Inr (Colon, HaveKey ms k # st') | _ \<Rightarrow> Inl JSONDecodeError)"

definition step :: "expect \<Rightarrow> frame list \<Rightarrow> token \<Rightarrow> exn + (expect \<times> frame list)" where
  "step ex st t =
     (case ex of
        Value \<Rightarrow> value_start st t
      | ValueOrClose \<Rightarrow> (if t = TRBracket then close_array st else value_start st t)
      | Key \<Rightarrow> (case t of TString k \<Rightarrow> read_key st k | _ \<Rightarrow> Inl JSONDecodeError)
      | KeyOrClose \<Rightarrow>
          (case t of
             TString k \<Rightarrow> read_key st k
           | TRBrace \<Rightarrow> close_object st
           | _ \<Rightarrow> Inl JSONDecodeError)
      | Colon \<Rightarrow> (if t = TColon then Inr (Value, st) else Inl JSONDecodeError)
      | CommaOrClose \<Rightarrow>
          (case t of
             TComma \<Rightarrow>
               (case st of
                  InArray xs # st' \<Rightarrow> Inr (Value, st)
                | InObject ms # st' \<Rightarrow> Inr (Key, st)
                | _ \<Rightarrow> Inl JSONDecodeError)
           | TRBracket \<Rightarrow> close_array st
           | TRBrace \<Rightarrow> close_object st
           | _ \<Rightarrow> Inl JSONDecodeError)
      | End v \<Rightarrow> Inl JSONDecodeError)"

fun parse :: "expect \<Rightarrow> frame list \<Rightarrow> token list \<Rightarrow> exn + pyval" where
  "parse ex st [] = (case ex of End v \<Rightarrow> Inr v | _ \<Rightarrow> Inl JSONDecodeError)"
| "parse ex st (t # ts) =
     (case step ex st t of
        Inl e \<Rightarrow> Inl e
      | Inr (ex', st') \<Rightarrow> parse ex' st' ts)"

definition loads :: "string \<Rightarrow> exn + pyval" where
  "loads s = (case scan Between s of Inl e \<Rightarrow> Inl e | Inr ts \<Rightarrow> parse Value [] ts)"

subsection \<open>The producer client and the world\<close>

text \<open>
  \<^verbatim>\<open>EventHubProducerClient\<close>, \<^verbatim>\<open>EventData\<close> and the batch come from the package
  \<^verbatim>\<open>azure-eventhub\<close>. Each call of the client either returns or raises; which of the
  two, the record \<open>sdk\<close> says, for the arguments of the call: \<open>None\<close> is a normal
  return. \<open>add_raises\<close> gets the bodies already in the batch and the new one (the batch
  raises \<^verbatim>\<open>ValueError\<close> when it is full), \<open>send_batch_raises\<close> the hub name and the
  bodies. \<open>from_connection_string_raises\<close> is the package's validation of a
  connection string that is not empty.
\<close>

record sdk =
  from_connection_string_raises :: "string \<Rightarrow> string \<Rightarrow> exn option"
  aenter_raises :: "exn option"
  create_batch_raises :: "exn option"
  add_raises :: "string list \<Rightarrow> string \<Rightarrow> exn option"
  send_batch_raises :: "string \<Rightarrow> string list \<Rightarrow> exn option"
  close_raises :: "exn option"

text \<open>
  Modelled from the spec: the constructor \<^verbatim>\<open>from_connection_string\<close> of the client,
  which the repository does not contain. The specification says that an empty
  connection string raises an error before any network send is attempted: the
  constructor refuses it at once, with the \<^verbatim>\<open>ValueError\<close> of the package, whatever the
  rest of the client does. A string that is not empty is up to the package's
  validation.
\<close>

definition constructor_raises :: "sdk \<Rightarrow> string \<Rightarrow> string \<Rightarrow> exn option" where
  "constructor_raises sdk cs name =
     (if cs = [] then Some ValueError else from_connection_string_raises sdk cs name)"

record producer_client =
  conn_str :: string
  client_eventhub_name :: string

datatype event_data = EventData (body: string)

text \<open>
  Every statement of the script that does something is an action; the world logs them
  in order, next to what can be observed from outside: the lines on the console (as the
  bytes written, UTF-8), the messages the hub has accepted, each with the name of the
  hub, and whether the client's session is open. The console is part of the world too:
  \<open>stdout_refuses\<close> says what \<^verbatim>\<open>print\<close> of a line raises (\<^verbatim>\<open>UnicodeEncodeError\<close> when
  the encoding of the stream has no code for a character of the line, an \<^verbatim>\<open>OSError\<close>
  when the stream is broken), and \<open>flush_fails\<close> whether the interpreter fails to
  flush the stream when it exits.
\<close>

datatype action =
    FromConnectionString string string
  | AEnter
  | DictDisplay pyval
  | CreateBatch
  | Dumps pyval "nat option"
  | MakeEventData string
  | Add event_data
  | SendBatch "event_data list"
  | Print string
  | AExit

datatype session = Unopened | Opened | Closed

record world =
  stdout :: "string list"
  stdout_refuses :: "string \<Rightarrow> exn option"
  flush_fails :: bool
  hub :: "(string \<times> string) list"
  session :: session
  trace :: "action list"

type_synonym 'a io = "world \<Rightarrow> (exn + 'a) \<times> world"

definition io_bind :: "'a io \<Rightarrow> ('a \<Rightarrow> 'b io) \<Rightarrow> 'b io" where
  "io_bind m f w = (case m w of (Inl e, w') \<Rightarrow> (Inl e, w') | (Inr a, w') \<Rightarrow> f a w')"

definition logged :: "action \<Rightarrow> world \<Rightarrow> world" where
  "logged a w = w\<lparr>trace := trace w @ [a]\<rparr>"

text \<open>
  \<open>call a failure effect result\<close>: the action is logged; when it raises nothing else
  happens, otherwise its effect takes place and its result is returned.
\<close>

definition call :: "action \<Rightarrow> exn option \<Rightarrow> (world \<Rightarrow> world) \<Rightarrow> 'a \<Rightarrow> 'a io" where
  "call a failure effect result w =
     (case failure of
        Some e \<Rightarrow> (Inl e, logged a w)
      | None \<Rightarrow> (Inr result, effect (logged a w)))"

definition from_connection_string :: "sdk \<Rightarrow> string \<Rightarrow> string \<Rightarrow> producer_client io" where
  "from_connection_string sdk cs name =
     call (FromConnectionString cs name) (constructor_raises sdk cs name) id
       \<lparr>conn_str = cs, client_eventhub_name = name\<rparr>"

definition aenter :: "sdk \<Rightarrow> producer_client \<Rightarrow> producer_client io" where
  "aenter sdk p = call AEnter (aenter_raises sdk) (\<lambda>w. w\<lparr>session := Opened\<rparr>) p"

text \<open>The client's \<^verbatim>\<open>__aexit__\<close> awaits \<^verbatim>\<open>close()\<close> and returns \<^verbatim>\<open>None\<close>.\<close>

definition aexit :: "sdk \<Rightarrow> producer_client \<Rightarrow> unit io" where
  "aexit sdk p = call AExit (close_raises sdk) (\<lambda>w. w\<lparr>session := Closed\<rparr>) ()"

definition create_batch :: "sdk \<Rightarrow> producer_client \<Rightarrow> event_data list io" where
  "create_batch sdk p = call CreateBatch (create_batch_raises sdk) id []"

text \<open>\<^verbatim>\<open>add\<close> changes the batch in place; here it returns the batch as changed.\<close>

definition add :: "sdk \<Rightarrow> event_data list \<Rightarrow> event_data \<Rightarrow> event_data list io" where
  "add sdk batch ev =
     call (Add ev) (add_raises sdk (map body batch) (body ev)) id (batch @ [ev])"

definition send_batch :: "sdk \<Rightarrow> producer_client \<Rightarrow> event_data list \<Rightarrow> unit io" where
  "send_batch sdk p batch =
     call (SendBatch batch)
       (send_batch_raises sdk (client_eventhub_name p) (map body batch))
       (\<lambda>w. w\<lparr>hub := hub w @ map (\<lambda>ev. (client_eventhub_name p, body ev)) batch\<rparr>) ()"

definition dict_display :: "pyval \<Rightarrow> pyval io" where
  "dict_display v = call (DictDisplay v) None id v"

definition json_dumps :: "pyval \<Rightarrow> nat option \<Rightarrow> string io" where
  "json_dumps obj ind w = (encode ind 0 obj, logged (Dumps obj ind) w)"

definition make_event_data :: "string \<Rightarrow> event_data io" where
  "make_event_data s = call (MakeEventData s) None id (EventData s)"

text \<open>\<^verbatim>\<open>print\<close> writes the line unless the console refuses it; then it raises.\<close>

definition print :: "string \<Rightarrow> unit io" where
  "print s w = call (Print s) (stdout_refuses w s) (\<lambda>w. w\<lparr>stdout := stdout w @ [s]\<rparr>) () w"

text \<open>
  \<^verbatim>\<open>async with mgr: body\<close>: \<^verbatim>\<open>__aenter__\<close> is awaited; if it raises, nothing else
  happens. Then the body runs, and \<^verbatim>\<open>__aexit__\<close> is awaited whether the body returned
  or raised. An exception of \<^verbatim>\<open>__aexit__\<close> takes the place of the body's; otherwise the
  body's exception goes on, as \<^verbatim>\<open>__aexit__\<close> returns \<^verbatim>\<open>None\<close>.
\<close>

definition async_with :: "sdk \<Rightarrow> producer_client \<Rightarrow> 'a io \<Rightarrow> 'a io" where
  "async_with sdk mgr blk w =
     (case aenter sdk mgr w of
        (Inl e, w1) \<Rightarrow> (Inl e, w1)
      | (Inr _, w1) \<Rightarrow>
          (case blk w1 of
             (r, w2) \<Rightarrow>
               (case aexit sdk mgr w2 of
                  (Inl e', w3) \<Rightarrow> (Inl e', w3)
                | (Inr _, w3) \<Rightarrow> (r, w3))))"

subsection \<open>The script\<close>

text \<open>
  The connection string of the script is a placeholder, the empty literal, and the
  specification speaks of the procedure called with a valid target as well as with an
  empty or invalid connection string. The body of the procedure is therefore written
  for any connection string \<open>cs\<close>; \<open>send_test_message\<close> is the body at the script's
  own.
\<close>

definition connection_string :: string where
  "connection_string = []"

definition eventhub_name :: string where
  "eventhub_name = ''otel-events''"

definition test_order :: pyval where
  "test_order =
     PyDict
       [(''user_id'', PyStr ''test-user-12345''),
        (''order_id'', PyStr ''test-order-67890''),
        (''timestamp'', PyStr ''2025-10-27T23:20:00Z''),
        (''amount'', PyFloat (float_of_decimal False 9999 (- 2))),
        (''currency'', PyStr ''USD''),
        (''items'',
           PyList
             [PyDict
                [(''product_id'', PyStr ''test-product''),
                 (''quantity'', PyInt 1),
                 (''price'', PyFloat (float_of_decimal False 9999 (- 2)))]])]"

text \<open>The two lines of \<open>send_test_message\<close>; the marks are U+2705 and U+1F4CB.\<close>

definition success_banner :: string where
  "success_banner =
     [CHR 0xE2, CHR 0x9C, CHR 0x85] @ '' Successfully sent test message to EventHub!''"

definition message_prefix :: string where
  "message_prefix = [CHR 0xF0, CHR 0x9F, CHR 0x93, CHR 0x8B] @ '' Message: ''"

definition send_test_message_with :: "string \<Rightarrow> sdk \<Rightarrow> unit io" where
  "send_test_message_with cs sdk =
     io_bind (from_connection_string sdk cs eventhub_name) (\<lambda>producer.
       async_with sdk producer
         (io_bind (dict_display test_order) (\<lambda>order.
          io_bind (create_batch sdk producer) (\<lambda>event_data_batch.
          io_bind (json_dumps order None) (\<lambda>text.
          io_bind (make_event_data text) (\<lambda>event_data.
          io_bind (add sdk event_data_batch event_data) (\<lambda>event_data_batch.
          io_bind (send_batch sdk producer event_data_batch) (\<lambda>_.
          io_bind (print success_banner) (\<lambda>_.
          io_bind (json_dumps order (Some 2)) (\<lambda>echo.
          print (message_prefix @ echo)))))))))))"

definition send_test_message :: "sdk \<Rightarrow> unit io" where
  "send_test_message sdk = send_test_message_with connection_string sdk"

text \<open>
  The script body: a line, the procedure under \<^verbatim>\<open>asyncio.run\<close>, a line. An exception
  that nobody catches ends the process with status 1, a script that reaches its end
  with status 0; either way the interpreter then flushes the console, and when that
  fails the status is 120. The marks are U+1F504 and U+2728.
\<close>

definition start_banner :: string where
  "start_banner =
     [CHR 0xF0, CHR 0x9F, CHR 0x94, CHR 0x84] @ '' Testing EventHub integration...''"

definition done_banner :: string where
  "done_banner = [CHR 0xE2, CHR 0x9C, CHR 0xA8] @ '' Test completed!''"

definition script_with :: "string \<Rightarrow> sdk \<Rightarrow> unit io" where
  "script_with cs sdk =
     io_bind (print start_banner) (\<lambda>_.
     io_bind (send_test_message_with cs sdk) (\<lambda>_.
     print done_banner))"

definition exit_status :: "exn + unit \<Rightarrow> nat" where
  "exit_status r = (case r of Inl e \<Rightarrow> 1 | Inr _ \<Rightarrow> 0)"

definition main_with :: "string \<Rightarrow> sdk \<Rightarrow> world \<Rightarrow> nat \<times> world" where
  "main_with cs sdk w =
     (case script_with cs sdk w of
        (r, w') \<Rightarrow> (if flush_fails w' then 120 else exit_status r, w'))"

definition main :: "sdk \<Rightarrow> world \<Rightarrow> nat \<times> world" where
  "main sdk w = main_with connection_string sdk w"

text \<open>
  A fresh process with a console that takes every line, in front of an empty hub; a
  client whose calls all return; and a connection string of the usual form.
\<close>

definition fresh :: world where
  "fresh =
     \<lparr>stdout = [], stdout_refuses = (\<lambda>s. None), flush_fails = False,
      hub = [], session = Unopened, trace = []\<rparr>"

definition sdk_ok :: sdk where
  "sdk_ok =
     \<lparr>from_connection_string_raises = (\<lambda>cs name. None),
      aenter_raises = None,
      create_batch_raises = None,
      add_raises = (\<lambda>batch b. None),
      send_batch_raises = (\<lambda>name bodies. None),
      close_raises = None\<rparr>"

definition some_connection_string :: string where
  "some_connection_string =
     ''Endpoint=sb://demo.servicebus.windows.net/;SharedAccessKeyName=send;SharedAccessKey=a2V5''"

subsection \<open>Observations of a run\<close>

text \<open>What a run adds to the world it starts in: actions, console lines, messages.\<close>

definition new_actions :: "world \<Rightarrow> world \<Rightarrow> action list" where
  "new_actions w w' = drop (length (trace w)) (trace w')"

definition new_lines :: "world \<Rightarrow> world \<Rightarrow> string list" where
  "new_lines w w' = drop (length (stdout w)) (stdout w')"

definition new_messages :: "world \<Rightarrow> world \<Rightarrow> (string \<times> string) list" where
  "new_messages w w' = drop (length (hub w)) (hub w')"

text \<open>
  The batches handed to \<^verbatim>\<open>send_batch\<close> (whether the call then returned or raised), the
  bodies in them, the records built by a dictionary display and the records serialised.
\<close>

fun sent_batches :: "action list \<Rightarrow> event_data list list" where
  "sent_batches [] = []"
| "sent_batches (SendBatch b # acts) = b # sent_batches acts"
| "sent_batches (a # acts) = sent_batches acts"

definition payloads :: "action list \<Rightarrow> string list" where
  "payloads acts = map body (concat (sent_batches acts))"

fun displayed :: "action list \<Rightarrow> pyval list" where
  "displayed [] = []"
| "displayed (DictDisplay v # acts) = v # displayed acts"
| "displayed (a # acts) = displayed acts"

fun dumped :: "action list \<Rightarrow> pyval list" where
  "dumped [] = []"
| "dumped (Dumps v ind # acts) = v # dumped acts"
| "dumped (a # acts) = dumped acts"

text \<open>\<open>precedes a b acts\<close>: \<open>b\<close> happens after the first \<open>a\<close>.\<close>

definition precedes :: "action \<Rightarrow> action \<Rightarrow> action list \<Rightarrow> bool" where
  "precedes a b acts = (b \<in> set (drop 1 (dropWhile (\<lambda>x. x \<noteq> a) acts)))"

text \<open>Subscription \<^verbatim>\<open>d[k]\<close> of a dictionary, and its keys.\<close>

definition field :: "string \<Rightarrow> pyval \<Rightarrow> pyval option" where
  "field k v = (case v of PyDict kvs \<Rightarrow> map_of kvs k | _ \<Rightarrow> None)"

definition keys :: "pyval \<Rightarrow> string list" where
  "keys v = (case v of PyDict kvs \<Rightarrow> map fst kvs | _ \<Rightarrow> [])"

text \<open>
  The two texts that \<^verbatim>\<open>json.dumps\<close> makes of the record: on one line for the message,
  and with \<^verbatim>\<open>indent=2\<close> for the console.
\<close>

definition wire_text :: string where
  \<open>wire_text =
     ''{"user_id": "test-user-12345", "order_id": "test-order-67890", "timestamp"''
     @ '': "2025-10-27T23:20:00Z", "amount": 99.99, "currency": "USD", "items": [''
     @ ''{"product_id": "test-product", "quantity": 1, "price": 99.99}]}''\<close>

definition echo_text :: string where
  \<open>echo_text =
     ''{\<newline>''
     @ ''  "user_id": "test-user-12345",\<newline>''
     @ ''  "order_id": "test-order-67890",\<newline>''
     @ ''  "timestamp": "2025-10-27T23:20:00Z",\<newline>''
     @ ''  "amount": 99.99,\<newline>''
     @ ''  "currency": "USD",\<newline>''
     @ ''  "items": [\<newline>''
     @ ''    {\<newline>''
     @ ''      "product_id": "test-product",\<newline>''
     @ ''      "quantity": 1,\<newline>''
     @ ''      "price": 99.99\<newline>''
     @ ''    }\<newline>''
     @ ''  ]\<newline>''
     @ ''}''\<close>

text \<open>
  A valid, reachable target: the connection string is accepted and every call the
  script makes on the client returns. A call before \<^verbatim>\<open>send_batch\<close> that raises is
  found by \<open>fails_before_send\<close>, in the order of the calls. The console accepts a list
  of lines when \<^verbatim>\<open>print\<close> raises on none of them.
\<close>

definition target_ok :: "string \<Rightarrow> sdk \<Rightarrow> bool" where
  "target_ok cs sdk =
     (constructor_raises sdk cs eventhub_name = None
      \<and> aenter_raises sdk = None
      \<and> create_batch_raises sdk = None
      \<and> add_raises sdk [] wire_text = None
      \<and> send_batch_raises sdk eventhub_name [wire_text] = None
      \<and> close_raises sdk = None)"

definition fails_before_send :: "string \<Rightarrow> sdk \<Rightarrow> exn option" where
  "fails_before_send cs sdk =
     (case constructor_raises sdk cs eventhub_name of
        Some e \<Rightarrow> Some e
      | None \<Rightarrow>
          (case aenter_raises sdk of
             Some e \<Rightarrow> Some e
           | None \<Rightarrow>
               (case create_batch_raises sdk of
                  Some e \<Rightarrow> Some e
                | None \<Rightarrow> add_raises sdk [] wire_text)))"

definition accepts :: "world \<Rightarrow> string list \<Rightarrow> bool" where
  "accepts w ls = list_all (\<lambda>s. stdout_refuses w s = None) ls"

definition procedure_lines :: "string list" where
  "procedure_lines = [success_banner, message_prefix @ echo_text]"

definition script_lines :: "string list" where
  "script_lines = [start_banner, success_banner, message_prefix @ echo_text, done_banner]"

text \<open>A text of characters below 128 is its own UTF-8 encoding.\<close>

definition is_ascii :: "string \<Rightarrow> bool" where
  "is_ascii s = list_all (\<lambda>c. of_char c < (0x80 :: nat)) s"

text \<open>
  Clients and worlds for the examples: a client whose validation refuses a string
  that is no connection string, one that cannot reach the service, and one whose
  service refuses the batch; a console that can only encode ASCII, and one whose
  final flush fails (a full disk behind a redirected output).
\<close>

definition sdk_strict :: sdk where
  "sdk_strict =
     sdk_ok\<lparr>from_connection_string_raises :=
              (\<lambda>cs name. if cs = ''no-connection-string'' then Some ValueError else None)\<rparr>"

definition sdk_unreachable :: sdk where
  "sdk_unreachable = sdk_ok\<lparr>create_batch_raises := Some ConnectError\<rparr>"

definition sdk_send_refused :: sdk where
  "sdk_send_refused = sdk_ok\<lparr>send_batch_raises := (\<lambda>name bodies. Some EventDataSendError)\<rparr>"

definition ascii_console :: world where
  "ascii_console =
     fresh\<lparr>stdout_refuses := (\<lambda>s. if is_ascii s then None else Some UnicodeEncodeError)\<rparr>"

definition full_disk :: world where
  "full_disk = fresh\<lparr>flush_fails := True\<rparr>"

subsection \<open>The Order Event shape\<close>

text \<open>
  The shape of the record as the data model words it: string identifiers, a time stamp
  \<^verbatim>\<open>YYYY-MM-DDThh:mm:ssZ\<close>, a number for the amount, a currency code of three capital
  letters, and items with a string, an integer and a number.
\<close>

fun matches :: "string \<Rightarrow> string \<Rightarrow> bool" where
  "matches [] [] = True"
| "matches (p # ps) (c # cs) = ((if p = CHR ''D'' then is_digit c else c = p) \<and> matches ps cs)"
| "matches ps cs = False"

definition in_range :: "string \<Rightarrow> nat \<Rightarrow> int \<Rightarrow> int \<Rightarrow> bool" where
  "in_range s at lo hi =
     (lo \<le> digits_value (take 2 (drop at s)) \<and> digits_value (take 2 (drop at s)) \<le> hi)"

definition iso8601_utc :: "string \<Rightarrow> bool" where
  "iso8601_utc s =
     (matches ''DDDD-DD-DDTDD:DD:DDZ'' s
      \<and> in_range s 5 1 12 \<and> in_range s 8 1 31
      \<and> in_range s 11 0 23 \<and> in_range s 14 0 59 \<and> in_range s 17 0 59)"

definition iso4217_code :: "string \<Rightarrow> bool" where
  "iso4217_code s =
     (length s = 3 \<and> list_all (\<lambda>c. (0x41 :: nat) \<le> of_char c \<and> of_char c \<le> (0x5A :: nat)) s)"

definition is_string :: "pyval option \<Rightarrow> bool" where
  "is_string v = (case v of Some (PyStr s) \<Rightarrow> True | _ \<Rightarrow> False)"

definition is_integer :: "pyval option \<Rightarrow> bool" where
  "is_integer v = (case v of Some (PyInt i) \<Rightarrow> True | _ \<Rightarrow> False)"

definition is_decimal :: "pyval option \<Rightarrow> bool" where
  "is_decimal v =
     (case v of
        Some (PyInt i) \<Rightarrow> True
      | Some (PyFloat (Finite neg m e)) \<Rightarrow> True
      | _ \<Rightarrow> False)"

definition string_such :: "(string \<Rightarrow> bool) \<Rightarrow> pyval option \<Rightarrow> bool" where
  "string_such P v = (case v of Some (PyStr s) \<Rightarrow> P s | _ \<Rightarrow> False)"

definition item_shape :: "pyval \<Rightarrow> bool" where
  "item_shape v =
     (distinct (keys v)
      \<and> set (keys v) = set [''product_id'', ''quantity'', ''price'']
      \<and> is_string (field ''product_id'' v)
      \<and> is_integer (field ''quantity'' v)
      \<and> is_decimal (field ''price'' v))"

definition order_event_shape :: "pyval \<Rightarrow> bool" where
  "order_event_shape v =
     (distinct (keys v)
      \<and> set (keys v)
          = set [''user_id'', ''order_id'', ''timestamp'', ''amount'', ''currency'', ''items'']
      \<and> is_string (field ''user_id'' v)
      \<and> is_string (field ''order_id'' v)
      \<and> string_such iso8601_utc (field ''timestamp'' v)
      \<and> is_decimal (field ''amount'' v)
      \<and> string_such iso4217_code (field ''currency'' v)
      \<and> (case field ''items'' v of Some (PyList xs) \<Rightarrow> list_all item_shape xs | _ \<Rightarrow> False))"

section \<open>Properties\<close>

subsection \<open>Evaluation of the serialiser and the parser on the record\<close>

lemma amount_float:
  "float_of_decimal False 9999 (- 2) = Finite False 7036170730324623 (- 46)"
  by code_simp

lemma repr_amount: "float_repr (Finite False 7036170730324623 (- 46)) = ''99.99''"
  by code_simp

lemma encode_wire: "encode None 0 test_order = Inr wire_text"
  by code_simp

lemma encode_echo: "encode (Some 2) 0 test_order = Inr echo_text"
  by code_simp

lemma loads_wire: "loads wire_text = Inr test_order"
  by code_simp

lemma loads_echo: "loads echo_text = Inr test_order"
  by code_simp

lemma shape_test_order: "order_event_shape test_order"
  by code_simp

lemma ascii_wire: "is_ascii wire_text"
  by code_simp

subsection \<open>Runs of the procedure\<close>

lemmas run_defs =
  send_test_message_with_def io_bind_def async_with_def call_def logged_def
  from_connection_string_def aenter_def aexit_def create_batch_def add_def send_batch_def
  dict_display_def json_dumps_def make_event_data_def print_def

lemmas main_defs = main_with_def script_with_def exit_status_def

lemmas observation_defs = new_actions_def new_lines_def new_messages_def

lemmas line_defs =
  accepts_def procedure_lines_def script_lines_def

text \<open>The run in front of a target whose calls all return, on a console that prints.\<close>

lemma send_test_message_ok:
  assumes "target_ok cs sdk" and "accepts w procedure_lines"
  shows "send_test_message_with cs sdk w =
    (Inr (),
     w\<lparr>stdout := stdout w @ [success_banner, message_prefix @ echo_text],
       hub := hub w @ [(eventhub_name, wire_text)],
       session := Closed,
       trace := trace w @
         [FromConnectionString cs eventhub_name, AEnter,
          DictDisplay test_order, CreateBatch, Dumps test_order None,
          MakeEventData wire_text, Add (EventData wire_text),
          SendBatch [EventData wire_text], Print success_banner,
          Dumps test_order (Some 2), Print (message_prefix @ echo_text), AExit]\<rparr>)"
  using assms by (simp add: target_ok_def line_defs run_defs encode_wire encode_echo)

text \<open>What such a target receives does not depend on the console.\<close>

lemma sent_when_target_ok:
  assumes "target_ok cs sdk"
  shows "hub (snd (send_test_message_with cs sdk w)) = hub w @ [(eventhub_name, wire_text)]"
    and "\<exists>rest. new_actions w (snd (send_test_message_with cs sdk w)) =
          [FromConnectionString cs eventhub_name, AEnter, DictDisplay test_order,
           CreateBatch, Dumps test_order None, MakeEventData wire_text,
           Add (EventData wire_text), SendBatch [EventData wire_text]] @ rest
          \<and> sent_batches rest = [] \<and> displayed rest = []"
  using assms
  by (simp_all add: target_ok_def run_defs encode_wire encode_echo new_actions_def
      split: option.splits)

lemma target_ok_not_blank: "target_ok cs sdk \<Longrightarrow> cs \<noteq> []"
  by (auto simp: target_ok_def constructor_raises_def)

lemma target_ok_sdk_ok: "target_ok some_connection_string sdk_ok"
  by (simp add: target_ok_def constructor_raises_def sdk_ok_def some_connection_string_def)

lemma fresh_accepts: "accepts fresh ls"
  by (induction ls) (simp_all add: accepts_def fresh_def)

text \<open>The script as it is written: the constructor refuses the empty connection string.\<close>

lemma send_test_message_blank:
  "send_test_message sdk w =
     (Inl ValueError, w\<lparr>trace := trace w @ [FromConnectionString [] ''otel-events'']\<rparr>)"
  by (simp add: send_test_message_def connection_string_def eventhub_name_def run_defs
      constructor_raises_def)

text \<open>Whatever the client does, at most one batch is handed to it, with this one body.\<close>

lemma sent_batches_any:
  "sent_batches (new_actions w (snd (send_test_message_with cs sdk w))) = []
   \<or> sent_batches (new_actions w (snd (send_test_message_with cs sdk w)))
       = [[EventData wire_text]]"
  by (simp add: run_defs encode_wire encode_echo new_actions_def split: option.splits)

lemma new_messages_any:
  "new_messages w (snd (send_test_message_with cs sdk w)) = []
   \<or> new_messages w (snd (send_test_message_with cs sdk w)) = [(''otel-events'', wire_text)]"
  by (simp add: run_defs encode_wire encode_echo new_messages_def eventhub_name_def
      split: option.splits)

lemma payloads_any:
  "payloads (new_actions w (snd (send_test_message_with cs sdk w))) = []
   \<or> payloads (new_actions w (snd (send_test_message_with cs sdk w))) = [wire_text]"
  using sent_batches_any [of w cs sdk] by (auto simp: payloads_def)

lemma timestamp_test_order:
  "field ''timestamp'' test_order = Some (PyStr ''2025-10-27T23:20:00Z'')"
  by (simp add: field_def test_order_def)

text \<open>The four lines of the script differ from one another.\<close>

lemma lines_differ:
  "start_banner \<noteq> success_banner" "start_banner \<noteq> message_prefix @ s"
  "start_banner \<noteq> done_banner" "success_banner \<noteq> message_prefix @ s"
  "success_banner \<noteq> done_banner" "message_prefix @ s \<noteq> done_banner"
  by (simp_all add: done_banner_def start_banner_def success_banner_def message_prefix_def)

text \<open>The script reaches its end exactly when every call and every \<^verbatim>\<open>print\<close> returned.\<close>

lemma script_status:
  "exit_status (fst (script_with cs sdk w)) =
     (if target_ok cs sdk \<and> accepts w script_lines then 0 else 1)"
  by (simp add: main_defs run_defs target_ok_def line_defs encode_wire encode_echo
      split: option.splits)

lemma script_last_line:
  "(done_banner \<in> set (new_lines w (snd (script_with cs sdk w))))
     = (target_ok cs sdk \<and> accepts w script_lines)"
  by (simp add: script_with_def run_defs target_ok_def line_defs encode_wire encode_echo
      new_lines_def lines_differ lines_differ [symmetric] split: option.splits)

subsection \<open>The statements of the specification\<close>

text \<open>
  C1. In front of a valid, reachable target the hub has received exactly one message
  more, under the name \<^verbatim>\<open>otel-events\<close>. Its body parses to a dictionary with exactly
  the six fields and the literal values of the script: the two identifiers, the time
  stamp, the amount 99.99, the currency \<^verbatim>\<open>USD\<close>, and one item with quantity 1 and
  price 99.99. When the console takes the two lines, the procedure returns normally.
\<close>

theorem one_message_delivered:
  assumes "target_ok cs sdk"
  shows "(\<exists>body.
          hub (snd (send_test_message_with cs sdk w)) = hub w @ [(''otel-events'', body)]
          \<and> loads body =
              Inr (PyDict
                [(''user_id'', PyStr ''test-user-12345''),
                 (''order_id'', PyStr ''test-order-67890''),
                 (''timestamp'', PyStr ''2025-10-27T23:20:00Z''),
                 (''amount'', PyFloat (float_of_decimal False 9999 (- 2))),
                 (''currency'', PyStr ''USD''),
                 (''items'',
                    PyList
                      [PyDict
                         [(''product_id'', PyStr ''test-product''),
                          (''quantity'', PyInt 1),
                          (''price'', PyFloat (float_of_decimal False 9999 (- 2)))]])]))
    \<and> (accepts w procedure_lines \<longrightarrow> fst (send_test_message_with cs sdk w) = Inr ())"
proof -
  have "hub (snd (send_test_message_with cs sdk w)) = hub w @ [(''otel-events'', wire_text)]"
    using sent_when_target_ok(1) [OF assms] by (simp add: eventhub_name_def)
  moreover have "fst (send_test_message_with cs sdk w) = Inr ()" if "accepts w procedure_lines"
    by (simp add: send_test_message_ok [OF assms that])
  moreover note loads_wire [unfolded test_order_def]
  ultimately show ?thesis by blast
qed

theorem one_message_delivered_witness:
  "target_ok some_connection_string sdk_ok
   \<and> accepts fresh procedure_lines
   \<and> fst (send_test_message_with some_connection_string sdk_ok fresh) = Inr ()
   \<and> (\<exists>body. hub (snd (send_test_message_with some_connection_string sdk_ok fresh))
               = [(''otel-events'', body)]
         \<and> field ''user_id'' (projr (loads body)) = Some (PyStr ''test-user-12345''))"
proof -
  from one_message_delivered [OF target_ok_sdk_ok, of fresh] fresh_accepts
  obtain body where
    r: "fst (send_test_message_with some_connection_string sdk_ok fresh) = Inr ()" and
    h: "hub (snd (send_test_message_with some_connection_string sdk_ok fresh))
        = hub fresh @ [(''otel-events'', body)]" and
    l: "field ''user_id'' (projr (loads body)) = Some (PyStr ''test-user-12345'')"
    by (auto simp: field_def)
  from h have "hub (snd (send_test_message_with some_connection_string sdk_ok fresh))
      = [(''otel-events'', body)]"
    by (simp add: fresh_def)
  with r l target_ok_sdk_ok fresh_accepts show ?thesis by blast
qed

text \<open>
  C2. The script as it is written hands the empty connection string to the
  constructor, which refuses it: whatever the client and the world, the procedure ends
  with that \<^verbatim>\<open>ValueError\<close>, the call of the constructor is its only action, no batch
  has been handed to the client, nothing has been printed by the procedure and the hub
  is as before; the script ends with a status that is not 0 and never prints the
  success banner. The same holds for any connection string that the constructor
  refuses.
\<close>

theorem rejected_before_send:
  "fst (send_test_message sdk w) = Inl ValueError
   \<and> new_actions w (snd (send_test_message sdk w)) = [FromConnectionString [] ''otel-events'']
   \<and> sent_batches (new_actions w (snd (send_test_message sdk w))) = []
   \<and> stdout (snd (send_test_message sdk w)) = stdout w
   \<and> hub (snd (send_test_message sdk w)) = hub w
   \<and> fst (main sdk w) = (if flush_fails w then 120 else 1)
   \<and> success_banner \<notin> set (new_lines w (snd (main sdk w)))
   \<and> sent_batches (new_actions w (snd (main sdk w))) = []
   \<and> (constructor_raises sdk cs eventhub_name = Some e \<longrightarrow>
        fst (send_test_message_with cs sdk w) = Inl e
        \<and> new_actions w (snd (send_test_message_with cs sdk w))
            = [FromConnectionString cs ''otel-events'']
        \<and> stdout (snd (send_test_message_with cs sdk w)) = stdout w
        \<and> hub (snd (send_test_message_with cs sdk w)) = hub w)"
proof -
  have a: "fst (main sdk w) = (if flush_fails w then 120 else 1)"
    "success_banner \<notin> set (new_lines w (snd (main sdk w)))"
    "sent_batches (new_actions w (snd (main sdk w))) = []"
    by (simp_all add: main_def main_defs io_bind_def print_def call_def logged_def
        send_test_message_blank [unfolded send_test_message_def] observation_defs
        success_banner_def start_banner_def split: option.splits)
  have b: "fst (send_test_message_with cs sdk w) = Inl e
        \<and> new_actions w (snd (send_test_message_with cs sdk w))
            = [FromConnectionString cs ''otel-events'']
        \<and> stdout (snd (send_test_message_with cs sdk w)) = stdout w
        \<and> hub (snd (send_test_message_with cs sdk w)) = hub w"
    if "constructor_raises sdk cs eventhub_name = Some e"
    using that by (simp add: run_defs new_actions_def eventhub_name_def)
  from a b show ?thesis
    by (simp add: send_test_message_blank new_actions_def)
qed

theorem rejected_before_send_witness:
  "connection_string = []
   \<and> fst (send_test_message sdk_ok fresh) = Inl ValueError
   \<and> trace (snd (send_test_message sdk_ok fresh)) = [FromConnectionString [] ''otel-events'']
   \<and> fst (main sdk_ok fresh) = 1
   \<and> stdout (snd (main sdk_ok fresh)) = [start_banner]
   \<and> constructor_raises sdk_strict ''no-connection-string'' eventhub_name = Some ValueError
   \<and> fst (send_test_message_with ''no-connection-string'' sdk_strict fresh) = Inl ValueError
   \<and> trace (snd (send_test_message_with ''no-connection-string'' sdk_strict fresh))
       = [FromConnectionString ''no-connection-string'' ''otel-events'']"
proof -
  have c: "constructor_raises sdk_strict ''no-connection-string'' eventhub_name = Some ValueError"
    by (simp add: constructor_raises_def sdk_strict_def sdk_ok_def)
  have m: "stdout (snd (main sdk_ok fresh)) = [start_banner]"
    by (simp add: main_def main_defs io_bind_def print_def call_def logged_def
        send_test_message_blank [unfolded send_test_message_def] fresh_def)
  from rejected_before_send [of sdk_ok fresh "''no-connection-string''" ValueError]
    rejected_before_send [of sdk_strict fresh "''no-connection-string''" ValueError] c m
  show ?thesis
    by (simp add: new_actions_def fresh_def connection_string_def)
qed

text \<open>
  C3. \<^verbatim>\<open>json.dumps\<close> of the record gives a text that \<^verbatim>\<open>json.loads\<close> reads back as an
  equal structure: the amount is still the float 99.99 and the items are still a list
  of one element. (Equal association lists are equal dictionaries.)
\<close>

theorem json_round_trip:
  "\<exists>s v. dumps test_order = Inr s \<and> loads s = Inr v \<and> v = test_order
     \<and> field ''amount'' v = Some (PyFloat (float_of_decimal False 9999 (- 2)))
     \<and> (\<exists>item. field ''items'' v = Some (PyList [item]))"
proof -
  have "dumps test_order = Inr wire_text" by (simp add: dumps_def encode_wire)
  moreover have "field ''amount'' test_order = Some (PyFloat (float_of_decimal False 9999 (- 2)))"
    by (simp add: field_def test_order_def)
  moreover have "\<exists>item. field ''items'' test_order = Some (PyList [item])"
    by (simp add: field_def test_order_def)
  ultimately show ?thesis using loads_wire by blast
qed

text \<open>
  C4. Once the client has been constructed and its scope entered, \<^verbatim>\<open>__aexit__\<close> is
  awaited exactly once and as the last action, whatever the calls inside the block
  and the console did; when it returns, the session is closed at the end of the
  procedure, on the path where the send succeeds and on every path where a call
  raises.
\<close>

theorem connection_released:
  assumes "constructor_raises sdk cs eventhub_name = None"
    and "aenter_raises sdk = None"
  shows "(\<exists>during.
            new_actions w (snd (send_test_message_with cs sdk w))
              = FromConnectionString cs ''otel-events'' # AEnter # during @ [AExit]
            \<and> AExit \<notin> set during)
    \<and> (close_raises sdk = None \<longrightarrow> session (snd (send_test_message_with cs sdk w)) = Closed)"
  using assms
  by (auto simp: run_defs new_actions_def encode_wire encode_echo eventhub_name_def
      split: option.splits)

theorem connection_released_witness:
  "fst (send_test_message_with some_connection_string sdk_send_refused fresh)
     = Inl EventDataSendError
   \<and> session (snd (send_test_message_with some_connection_string sdk_send_refused fresh))
       = Closed
   \<and> last (trace (snd (send_test_message_with some_connection_string sdk_send_refused fresh)))
       = AExit
   \<and> fst (send_test_message_with some_connection_string sdk_ok ascii_console)
       = Inl UnicodeEncodeError
   \<and> session (snd (send_test_message_with some_connection_string sdk_ok ascii_console))
       = Closed
   \<and> fst (send_test_message_with some_connection_string sdk_ok fresh) = Inr ()
   \<and> session (snd (send_test_message_with some_connection_string sdk_ok fresh)) = Closed
   \<and> last (trace (snd (send_test_message_with some_connection_string sdk_ok fresh))) = AExit"
proof -
  have a: "constructor_raises sdk_send_refused some_connection_string eventhub_name = None"
       "aenter_raises sdk_send_refused = None" "close_raises sdk_send_refused = None"
    by (simp_all add: sdk_send_refused_def sdk_ok_def constructor_raises_def
        some_connection_string_def)
  have b: "constructor_raises sdk_ok some_connection_string eventhub_name = None"
       "aenter_raises sdk_ok = None" "close_raises sdk_ok = None"
    by (simp_all add: sdk_ok_def constructor_raises_def some_connection_string_def)
  have r: "fst (send_test_message_with some_connection_string sdk_send_refused fresh)
      = Inl EventDataSendError"
    by (simp add: run_defs sdk_send_refused_def sdk_ok_def fresh_def encode_wire
        constructor_raises_def some_connection_string_def)
  have u: "fst (send_test_message_with some_connection_string sdk_ok ascii_console)
      = Inl UnicodeEncodeError"
    by (simp add: run_defs sdk_ok_def ascii_console_def fresh_def encode_wire
        constructor_raises_def some_connection_string_def success_banner_def is_ascii_def)
  have s: "fst (send_test_message_with some_connection_string sdk_ok fresh) = Inr ()"
    by (simp add: send_test_message_ok [OF target_ok_sdk_ok fresh_accepts])
  from connection_released [OF a(1,2), of fresh] connection_released [OF b(1,2), of fresh]
    connection_released [OF b(1,2), of ascii_console] a(3) b(3) r s u
  show ?thesis by (auto simp: new_actions_def fresh_def)
qed

text \<open>
  C5. The order of the steps. The claim puts the serialisation and the wrapping before
  the creation of the batch; the procedure awaits \<^verbatim>\<open>create_batch\<close> first. So in a
  run where everything returns the batch is created before the record is serialised,
  and in a run where \<^verbatim>\<open>create_batch\<close> raises the record is never serialised at all.
\<close>

theorem serialize_before_batch_counterexample:
  "\<not> precedes (Dumps test_order None) CreateBatch
        (trace (snd (send_test_message_with some_connection_string sdk_ok fresh)))
   \<and> precedes CreateBatch (Dumps test_order None)
        (trace (snd (send_test_message_with some_connection_string sdk_ok fresh)))
   \<and> CreateBatch
        \<in> set (trace (snd (send_test_message_with some_connection_string sdk_unreachable fresh)))
   \<and> dumped (trace (snd (send_test_message_with some_connection_string sdk_unreachable fresh)))
        = []"
proof -
  have e: "trace fresh = []" by (simp add: fresh_def)
  have u: "trace (snd (send_test_message_with some_connection_string sdk_unreachable fresh)) =
      [FromConnectionString some_connection_string ''otel-events'', AEnter,
       DictDisplay test_order, CreateBatch, AExit]"
    by (simp add: run_defs sdk_unreachable_def sdk_ok_def fresh_def eventhub_name_def
        constructor_raises_def some_connection_string_def)
  have t: "trace (snd (send_test_message_with some_connection_string sdk_ok fresh)) =
      [FromConnectionString some_connection_string ''otel-events'', AEnter,
       DictDisplay test_order, CreateBatch, Dumps test_order None, MakeEventData wire_text,
       Add (EventData wire_text), SendBatch [EventData wire_text],
       Print success_banner, Dumps test_order (Some 2),
       Print (message_prefix @ echo_text), AExit]"
    by (simp add: send_test_message_ok [OF target_ok_sdk_ok fresh_accepts] e
        eventhub_name_def)
  show ?thesis
    by (simp add: t u precedes_def)
qed

text \<open>
  C5, as amended. In front of a target whose calls all return, the actions of the
  procedure are, in this order: the client is constructed and its scope entered, the
  record is built, an empty batch is created, the record is serialised, the text is
  wrapped as one message, that message is appended to the batch and the batch is
  transmitted; it is the only batch and holds exactly that one message. When the
  console takes them, the two lines are printed next (the record serialised again for
  the second) and the scope is left.
\<close>

theorem steps_in_order:
  assumes "target_ok cs sdk"
  shows "(\<exists>rest.
            new_actions w (snd (send_test_message_with cs sdk w)) =
              [FromConnectionString cs ''otel-events'', AEnter, DictDisplay test_order,
               CreateBatch, Dumps test_order None, MakeEventData wire_text,
               Add (EventData wire_text), SendBatch [EventData wire_text]] @ rest
            \<and> sent_batches rest = []
            \<and> (accepts w procedure_lines \<longrightarrow>
                 rest = [Print success_banner, Dumps test_order (Some 2),
                         Print (message_prefix @ echo_text), AExit]))
    \<and> sent_batches (new_actions w (snd (send_test_message_with cs sdk w)))
        = [[EventData wire_text]]
    \<and> dumps test_order = Inr wire_text"
proof -
  from sent_when_target_ok(2) [OF assms, of w] obtain rest where
    r: "new_actions w (snd (send_test_message_with cs sdk w)) =
          [FromConnectionString cs eventhub_name, AEnter, DictDisplay test_order,
           CreateBatch, Dumps test_order None, MakeEventData wire_text,
           Add (EventData wire_text), SendBatch [EventData wire_text]] @ rest"
    and s: "sent_batches rest = []"
    by blast
  have f: "rest = [Print success_banner, Dumps test_order (Some 2),
                   Print (message_prefix @ echo_text), AExit]"
    if "accepts w procedure_lines"
    using r by (simp add: send_test_message_ok [OF assms that] new_actions_def)
  have b: "sent_batches (new_actions w (snd (send_test_message_with cs sdk w)))
        = [[EventData wire_text]]"
    by (simp add: r s)
  have d: "dumps test_order = Inr wire_text"
    by (simp add: dumps_def encode_wire)
  from r s f b d show ?thesis by (simp add: eventhub_name_def)
qed

theorem steps_in_order_witness:
  "target_ok some_connection_string sdk_ok
   \<and> accepts fresh procedure_lines
   \<and> trace (snd (send_test_message_with some_connection_string sdk_ok fresh)) =
      [FromConnectionString some_connection_string ''otel-events'', AEnter,
       DictDisplay test_order, CreateBatch, Dumps test_order None, MakeEventData wire_text,
       Add (EventData wire_text), SendBatch [EventData wire_text],
       Print success_banner, Dumps test_order (Some 2),
       Print (message_prefix @ echo_text), AExit]
   \<and> map length
        (sent_batches (trace (snd (send_test_message_with some_connection_string sdk_ok fresh))))
       = [1]"
proof -
  have e: "trace fresh = []" by (simp add: fresh_def)
  from steps_in_order [OF target_ok_sdk_ok, of fresh] fresh_accepts [of procedure_lines]
  have "new_actions fresh (snd (send_test_message_with some_connection_string sdk_ok fresh)) =
      [FromConnectionString some_connection_string ''otel-events'', AEnter,
       DictDisplay test_order, CreateBatch, Dumps test_order None, MakeEventData wire_text,
       Add (EventData wire_text), SendBatch [EventData wire_text],
       Print success_banner, Dumps test_order (Some 2),
       Print (message_prefix @ echo_text), AExit]"
    by auto
  with target_ok_sdk_ok fresh_accepts [of procedure_lines] show ?thesis
    by (simp add: new_actions_def e)
qed

text \<open>
  C6. When the calls before it return, the procedure hands the client one batch, a
  single message with the body below, and in front of a valid target that message
  reaches the hub under the name \<^verbatim>\<open>otel-events\<close>. Whatever the client does, no other
  batch is handed to it and nothing else reaches the hub. The body is a text of ASCII
  characters (its own UTF-8 encoding) that parses to a value of the Order Event shape.
\<close>

theorem wire_payload_shape:
  "(fails_before_send cs sdk = None \<longrightarrow>
      sent_batches (new_actions w (snd (send_test_message_with cs sdk w)))
        = [[EventData wire_text]])
   \<and> (target_ok cs sdk \<longrightarrow>
      new_messages w (snd (send_test_message_with cs sdk w)) = [(''otel-events'', wire_text)])
   \<and> (sent_batches (new_actions w (snd (send_test_message_with cs sdk w))) = []
      \<or> sent_batches (new_actions w (snd (send_test_message_with cs sdk w)))
          = [[EventData wire_text]])
   \<and> (new_messages w (snd (send_test_message_with cs sdk w)) = []
      \<or> new_messages w (snd (send_test_message_with cs sdk w)) = [(''otel-events'', wire_text)])
   \<and> eventhub_name = ''otel-events''
   \<and> is_ascii wire_text
   \<and> (\<exists>v. loads wire_text = Inr v \<and> order_event_shape v)"
proof -
  have a: "sent_batches (new_actions w (snd (send_test_message_with cs sdk w)))
        = [[EventData wire_text]]"
    if "fails_before_send cs sdk = None"
    using that
    by (simp add: fails_before_send_def run_defs encode_wire encode_echo new_actions_def
        split: option.splits)
  have b: "new_messages w (snd (send_test_message_with cs sdk w)) = [(''otel-events'', wire_text)]"
    if "target_ok cs sdk"
    using sent_when_target_ok(1) [OF that, of w]
    by (simp add: new_messages_def eventhub_name_def)
  from a b sent_batches_any [of w cs sdk] new_messages_any [of w cs sdk] ascii_wire
    loads_wire shape_test_order
  show ?thesis by (simp add: eventhub_name_def)
qed

theorem wire_payload_shape_witness:
  "fails_before_send some_connection_string sdk_send_refused = None
   \<and> sent_batches
        (trace (snd (send_test_message_with some_connection_string sdk_send_refused fresh)))
       = [[EventData wire_text]]
   \<and> hub (snd (send_test_message_with some_connection_string sdk_send_refused fresh)) = []
   \<and> target_ok some_connection_string sdk_ok
   \<and> sent_batches (trace (snd (send_test_message_with some_connection_string sdk_ok fresh)))
       = [[EventData wire_text]]
   \<and> hub (snd (send_test_message_with some_connection_string sdk_ok fresh))
       = [(''otel-events'', wire_text)]
   \<and> (\<exists>v. loads wire_text = Inr v \<and> order_event_shape v)"
proof -
  have f: "fails_before_send some_connection_string sdk_send_refused = None"
    by (simp add: fails_before_send_def constructor_raises_def sdk_send_refused_def sdk_ok_def
        some_connection_string_def)
  have g: "fails_before_send some_connection_string sdk_ok = None"
    by (simp add: fails_before_send_def constructor_raises_def sdk_ok_def
        some_connection_string_def)
  have h: "hub (snd (send_test_message_with some_connection_string sdk_send_refused fresh)) = []"
    by (simp add: run_defs sdk_send_refused_def sdk_ok_def fresh_def encode_wire
        constructor_raises_def some_connection_string_def)
  from wire_payload_shape [of some_connection_string sdk_send_refused fresh]
    wire_payload_shape [of some_connection_string sdk_ok fresh] f g h target_ok_sdk_ok
  show ?thesis by (simp add: observation_defs fresh_def)
qed

text \<open>
  C7. The exit status. The claim gives status zero to every run of the script that
  reaches its end. With a valid target and a console that takes every line the script
  reaches its end and prints its last line, but when the interpreter cannot flush the
  console at exit (the output redirected to a full disk) the status is 120.
\<close>

theorem completion_status_counterexample:
  "fst (script_with some_connection_string sdk_ok full_disk) = Inr ()
   \<and> last (stdout (snd (main_with some_connection_string sdk_ok full_disk))) = done_banner
   \<and> fst (main_with some_connection_string sdk_ok full_disk) = 120
   \<and> fst (main_with some_connection_string sdk_ok full_disk) \<noteq> 0"
  by (simp add: main_defs run_defs full_disk_def fresh_def sdk_ok_def constructor_raises_def
      some_connection_string_def encode_wire encode_echo)

text \<open>
  C7, as amended. A call of the client or a \<^verbatim>\<open>print\<close> that raises ends the script
  with an exception that nobody catches and the process with a status that is not
  zero: the script reaches its end, and prints its last line, exactly when every call
  returned. The status is then 0, and 1 after an exception, unless the flush of the
  console at exit fails, which makes it 120. No action is done twice: nothing is tried
  again.
\<close>

theorem exit_status_of_script:
  "fst (main_with cs sdk w) =
     (if flush_fails w then 120
      else if target_ok cs sdk \<and> accepts w script_lines then 0 else 1)
   \<and> (fst (script_with cs sdk w) = Inr ()) = (target_ok cs sdk \<and> accepts w script_lines)
   \<and> (done_banner \<in> set (new_lines w (snd (main_with cs sdk w))))
       = (target_ok cs sdk \<and> accepts w script_lines)
   \<and> distinct (new_actions w (snd (main_with cs sdk w)))"
proof -
  have a: "fst (main_with cs sdk w) =
     (if flush_fails w then 120
      else if target_ok cs sdk \<and> accepts w script_lines then 0 else 1)"
    by (simp add: main_defs run_defs target_ok_def line_defs encode_wire encode_echo
        split: option.splits)
  have b: "(fst (script_with cs sdk w) = Inr ()) = (target_ok cs sdk \<and> accepts w script_lines)"
    using script_status [of cs sdk w]
    by (cases "fst (script_with cs sdk w)") (simp_all add: exit_status_def split: if_splits)
  have c: "(done_banner \<in> set (new_lines w (snd (main_with cs sdk w))))
       = (target_ok cs sdk \<and> accepts w script_lines)"
    by (simp add: main_with_def split_beta script_last_line)
  have d: "distinct (new_actions w (snd (main_with cs sdk w)))"
    by (simp add: main_defs run_defs encode_wire encode_echo new_actions_def
        lines_differ lines_differ [symmetric] split: option.splits)
  from a b c d show ?thesis by blast
qed

theorem exit_status_of_script_witness:
  "fst (main_with some_connection_string sdk_ok fresh) = 0
   \<and> fst (main_with some_connection_string sdk_ok ascii_console) = 1
   \<and> fst (main_with some_connection_string sdk_unreachable fresh) = 1
   \<and> fst (main_with some_connection_string sdk_ok full_disk) = 120
   \<and> fst (main sdk_ok fresh) = 1"
proof -
  have f: "flush_fails fresh = False" "flush_fails ascii_console = False"
      "flush_fails full_disk = True"
    by (simp_all add: fresh_def ascii_console_def full_disk_def)
  have n: "accepts ascii_console script_lines = False"
    by (simp add: line_defs ascii_console_def fresh_def is_ascii_def start_banner_def)
  have u: "target_ok some_connection_string sdk_unreachable = False"
    by (simp add: target_ok_def sdk_unreachable_def sdk_ok_def)
  have k: "target_ok [] sdk_ok = False"
    by (simp add: target_ok_def constructor_raises_def)
  from exit_status_of_script [of some_connection_string sdk_ok fresh]
    exit_status_of_script [of some_connection_string sdk_ok ascii_console]
    exit_status_of_script [of some_connection_string sdk_unreachable fresh]
    exit_status_of_script [of some_connection_string sdk_ok full_disk]
    exit_status_of_script [of "[]" sdk_ok fresh]
    f n u k target_ok_sdk_ok fresh_accepts [of script_lines]
  show ?thesis by (simp add: main_def connection_string_def)
qed

text \<open>
  C8. In every run the record is built at most once and every serialisation is of the
  record as built. In front of a valid target it has been built once and the body of
  the message parses to the record that was built; when the console takes the two
  lines it has been serialised twice, unchanged, and the text echoed on the console
  parses to the record that was built.
\<close>

theorem record_unchanged:
  "length (displayed (new_actions w (snd (send_test_message_with cs sdk w)))) \<le> 1
   \<and> list_all (\<lambda>v. v = test_order)
        (displayed (new_actions w (snd (send_test_message_with cs sdk w)))
         @ dumped (new_actions w (snd (send_test_message_with cs sdk w))))
   \<and> (target_ok cs sdk \<longrightarrow>
        displayed (new_actions w (snd (send_test_message_with cs sdk w))) = [test_order]
        \<and> (\<exists>body. new_messages w (snd (send_test_message_with cs sdk w))
                     = [(''otel-events'', body)]
                   \<and> loads body = Inr test_order))
   \<and> (target_ok cs sdk \<and> accepts w procedure_lines \<longrightarrow>
        dumped (new_actions w (snd (send_test_message_with cs sdk w)))
          = [test_order, test_order]
        \<and> (\<exists>echo. new_lines w (snd (send_test_message_with cs sdk w))
                     = [success_banner, message_prefix @ echo]
                   \<and> loads echo = Inr test_order))"
proof -
  have a: "length (displayed (new_actions w (snd (send_test_message_with cs sdk w)))) \<le> 1"
    by (simp add: run_defs encode_wire encode_echo new_actions_def split: option.splits)
  have b: "list_all (\<lambda>v. v = test_order)
        (displayed (new_actions w (snd (send_test_message_with cs sdk w)))
         @ dumped (new_actions w (snd (send_test_message_with cs sdk w))))"
    by (simp add: run_defs encode_wire encode_echo new_actions_def split: option.splits)
  have c: "displayed (new_actions w (snd (send_test_message_with cs sdk w))) = [test_order]
        \<and> (\<exists>body. new_messages w (snd (send_test_message_with cs sdk w))
                     = [(''otel-events'', body)]
                   \<and> loads body = Inr test_order)"
    if ok: "target_ok cs sdk"
    using sent_when_target_ok [OF ok, of w] loads_wire
    by (auto simp: new_messages_def eventhub_name_def)
  have d: "dumped (new_actions w (snd (send_test_message_with cs sdk w)))
          = [test_order, test_order]
        \<and> (\<exists>echo. new_lines w (snd (send_test_message_with cs sdk w))
                     = [success_banner, message_prefix @ echo]
                   \<and> loads echo = Inr test_order)"
    if ok: "target_ok cs sdk" and pr: "accepts w procedure_lines"
    using loads_echo
    by (simp add: send_test_message_ok [OF ok pr] observation_defs)
  from a b c d show ?thesis by blast
qed

theorem record_unchanged_witness:
  "target_ok some_connection_string sdk_ok
   \<and> accepts fresh procedure_lines
   \<and> displayed (trace (snd (send_test_message_with some_connection_string sdk_ok fresh)))
       = [test_order]
   \<and> dumped (trace (snd (send_test_message_with some_connection_string sdk_ok fresh)))
       = [test_order, test_order]
   \<and> (\<exists>echo. stdout (snd (send_test_message_with some_connection_string sdk_ok fresh))
                = [success_banner, message_prefix @ echo]
             \<and> loads echo = Inr test_order)
   \<and> (\<exists>body. hub (snd (send_test_message_with some_connection_string sdk_ok fresh))
                = [(''otel-events'', body)]
             \<and> loads body = Inr test_order)"
proof -
  have e: "trace fresh = []" "stdout fresh = []" "hub fresh = []"
    by (simp_all add: fresh_def)
  from record_unchanged [of fresh some_connection_string sdk_ok] target_ok_sdk_ok
    fresh_accepts [of procedure_lines]
  show ?thesis by (simp add: observation_defs e)
qed

text \<open>
  C9. The time stamp is the literal of the script: every body that the procedure hands
  to \<^verbatim>\<open>send_batch\<close>, in any run, parses to a record whose \<^verbatim>\<open>timestamp\<close> is the string
  \<^verbatim>\<open>2025-10-27T23:20:00Z\<close>.
\<close>

theorem timestamp_is_literal:
  assumes "b \<in> set (payloads (new_actions w (snd (send_test_message_with cs sdk w))))"
  shows "\<exists>v. loads b = Inr v
    \<and> field ''timestamp'' v = Some (PyStr ''2025-10-27T23:20:00Z'')"
proof -
  from assms payloads_any [of w cs sdk] have "b = wire_text" by auto
  with loads_wire timestamp_test_order show ?thesis by simp
qed

theorem timestamp_is_literal_witness:
  "wire_text
     \<in> set (payloads (trace (snd (send_test_message_with some_connection_string sdk_ok fresh))))
   \<and> (\<exists>v. loads wire_text = Inr v
         \<and> field ''timestamp'' v = Some (PyStr ''2025-10-27T23:20:00Z''))"
proof -
  have e: "trace fresh = []" by (simp add: fresh_def)
  have p: "wire_text \<in> set (payloads
      (new_actions fresh (snd (send_test_message_with some_connection_string sdk_ok fresh))))"
    by (simp add: send_test_message_ok [OF target_ok_sdk_ok fresh_accepts] new_actions_def
        payloads_def)
  from timestamp_is_literal [OF p] p show ?thesis
    by (simp add: new_actions_def e)
qed

text \<open>
  C10. The body does not depend on the run: two bodies handed to \<^verbatim>\<open>send_batch\<close> in any
  two runs, whatever the connection string, the client and the world, are the same
  text. Two runs one after the other in front of valid targets add two messages to the
  hub, with the same body.
\<close>

theorem payload_deterministic:
  "(b \<in> set (payloads (new_actions u (snd (send_test_message_with cs sdk u))))
      \<and> b' \<in> set (payloads (new_actions u' (snd (send_test_message_with cs' sdk' u'))))
      \<longrightarrow> b = b')
   \<and> (target_ok cs sdk \<and> target_ok cs' sdk' \<longrightarrow>
        new_messages w
          (snd (send_test_message_with cs' sdk' (snd (send_test_message_with cs sdk w))))
          = [(''otel-events'', wire_text), (''otel-events'', wire_text)])"
proof -
  have a: "b = b'"
    if "b \<in> set (payloads (new_actions u (snd (send_test_message_with cs sdk u))))"
      and "b' \<in> set (payloads (new_actions u' (snd (send_test_message_with cs' sdk' u'))))"
    using that payloads_any [of u cs sdk] payloads_any [of u' cs' sdk'] by auto
  have c: "new_messages w
          (snd (send_test_message_with cs' sdk' (snd (send_test_message_with cs sdk w))))
          = [(''otel-events'', wire_text), (''otel-events'', wire_text)]"
    if "target_ok cs sdk" and "target_ok cs' sdk'"
    by (simp add: sent_when_target_ok(1) [OF that(1)] sent_when_target_ok(1) [OF that(2)]
        new_messages_def eventhub_name_def)
  from a c show ?thesis by blast
qed

theorem payload_deterministic_witness:
  "payloads (trace (snd (send_test_message_with some_connection_string sdk_ok fresh)))
     = [wire_text]
   \<and> payloads (trace (snd (send_test_message_with some_connection_string sdk_send_refused fresh)))
       = [wire_text]
   \<and> hub (snd (send_test_message_with some_connection_string sdk_ok
                 (snd (send_test_message_with some_connection_string sdk_ok fresh))))
       = [(''otel-events'', wire_text), (''otel-events'', wire_text)]"
proof -
  have e: "trace fresh = []" "hub fresh = []"
    by (simp_all add: fresh_def)
  have p: "payloads
      (new_actions fresh (snd (send_test_message_with some_connection_string sdk_ok fresh)))
      = [wire_text]"
    by (simp add: send_test_message_ok [OF target_ok_sdk_ok fresh_accepts] new_actions_def
        payloads_def)
  have q: "payloads (new_actions fresh
      (snd (send_test_message_with some_connection_string sdk_send_refused fresh)))
      = [wire_text]"
    by (simp add: run_defs sdk_send_refused_def sdk_ok_def fresh_def encode_wire
        new_actions_def payloads_def constructor_raises_def some_connection_string_def)
  from payload_deterministic
    [of wire_text fresh some_connection_string sdk_ok wire_text fresh some_connection_string
      sdk_send_refused fresh]
    payload_deterministic
    [of wire_text fresh some_connection_string sdk_ok wire_text fresh some_connection_string
      sdk_ok fresh]
    p q target_ok_sdk_ok
  show ?thesis by (simp add: observation_defs e)
qed

end
